theory Spec2Isabelle
  imports Complex_Main "HOL-Library.Sublist" "HOL-Library.AList" "HOL-Library.List_Lexorder"
    "HOL-Library.Log_Nat"
begin

section \<open>Python values used by the triage pipeline\<close>

text \<open>
  A Python \<open>str\<close> is a sequence of Unicode code points. The knowledge base, the symptom
  tables and the alert texts are French, and one alert line starts with U+2022, so a
  string is modelled as the list of its code points.
\<close>

type_synonym pystr = "nat list"

definition py :: "string \<Rightarrow> pystr" where
  "py cs = map of_char cs"

definition e_acute :: pystr where "e_acute = [0xE9]"
definition e_grave :: pystr where "e_grave = [0xE8]"
definition e_circ :: pystr where "e_circ = [0xEA]"
definition a_grave :: pystr where "a_grave = [0xE0]"
definition u_circ :: pystr where "u_circ = [0xFB]"
definition o_circ :: pystr where "o_circ = [0xF4]"
definition E_acute :: pystr where "E_acute = [0xC9]"
definition a_circ :: pystr where "a_circ = [0xE2]"
definition a_uml :: pystr where "a_uml = [0xE4]"
definition e_uml :: pystr where "e_uml = [0xEB]"
definition i_circ :: pystr where "i_circ = [0xEE]"
definition i_uml :: pystr where "i_uml = [0xEF]"
definition o_uml :: pystr where "o_uml = [0xF6]"
definition u_grave :: pystr where "u_grave = [0xF9]"
definition u_uml :: pystr where "u_uml = [0xFC]"
definition c_cedil :: pystr where "c_cedil = [0xE7]"
definition bullet :: pystr where "bullet = [0x2022]"
definition newline :: pystr where "newline = [0x0A]"

text \<open>\<open>sep.join(parts)\<close>.\<close>

fun join :: "pystr \<Rightarrow> pystr list \<Rightarrow> pystr" where
  "join sep [] = []"
| "join sep [x] = x"
| "join sep (x # y # ys) = x @ sep @ join sep (y # ys)"

text \<open>
  \<open>str.lower()\<close> belongs to the Python runtime: its result follows the Unicode case
  tables. Every function below that lowercases a string takes the runtime's function
  as its first argument \<open>lower\<close>. \<open>lower_latin1\<close> is that function on strings whose code
  points are below 256 (ASCII and the Latin-1 supplement), which covers the texts of
  this repository; it serves to run the model on concrete inputs.
\<close>

definition lower_cp :: "nat \<Rightarrow> nat" where
  "lower_cp c =
     (if (0x41 \<le> c \<and> c \<le> 0x5A) \<or> (0xC0 \<le> c \<and> c \<le> 0xD6) \<or> (0xD8 \<le> c \<and> c \<le> 0xDE)
      then c + 0x20 else c)"

definition lower_latin1 :: "pystr \<Rightarrow> pystr" where
  "lower_latin1 s = map lower_cp s"

text \<open>Exceptions of the Python code, as values; each is a subclass of \<open>Exception\<close>.\<close>

datatype exn =
    FileNotFoundError
  | JSONDecodeError
  | AttributeError
  | ValueError
  | OSError
  | ImportError
  | OtherException

section \<open>Python floats\<close>

text \<open>
  A Python \<open>float\<close> is an IEEE 754 double. \<open>Float m e\<close> stands for the finite double
  \<open>m * 2 ^ e\<close>; \<open>valof\<close> is its value, and floats are compared through it. Every
  operation returns the exact result rounded to the nearest double, ties to even: a
  mantissa of 53 bits, the exponent not below -1074 (gradual underflow). Infinities and
  NaN are not modelled: scikit-learn rejects them, and the weights and similarities of
  this program stay far from the overflow threshold.
\<close>

datatype pyfloat = Float int int

fun valof :: "pyfloat \<Rightarrow> real" where
  "valof (Float m e) = (if 0 \<le> e then of_int m * 2 ^ nat e else of_int m / 2 ^ nat (- e))"

text \<open>\<open>m / 2 ^ k\<close> rounded to the nearest integer, a tie going to the even neighbour.\<close>

definition round_even :: "int \<Rightarrow> nat \<Rightarrow> int" where
  "round_even m k =
     (if k = 0 then m
      else
        (let q = m div 2 ^ k; r = m mod 2 ^ k; half = 2 ^ (k - 1)
         in if r < half then q
            else if half < r then q + 1
            else if even q then q else q + 1))"

text \<open>
  The double nearest to \<open>m * 2 ^ e\<close>, written with a full mantissa (53 bits, fewer only
  at the exponent -1074) so that each double has one representation.
\<close>

definition round53 :: "int \<Rightarrow> int \<Rightarrow> pyfloat" where
  "round53 m e =
     (if m = 0 then Float 0 0
      else
        (let k = max (bitlen \<bar>m\<bar> - 53) (- 1074 - e)
         in if k \<le> 0 then Float (m * 2 ^ nat (- k)) (e + k)
            else
              (let q = round_even m (nat k)
               in if q = 0 then Float 0 0
                  else if \<bar>q\<bar> = 2 ^ 53 then Float (q div 2) (e + k + 1)
                  else Float q (e + k))))"

fun fmul :: "pyfloat \<Rightarrow> pyfloat \<Rightarrow> pyfloat" where
  "fmul (Float m1 e1) (Float m2 e2) = round53 (m1 * m2) (e1 + e2)"

fun fadd :: "pyfloat \<Rightarrow> pyfloat \<Rightarrow> pyfloat" where
  "fadd (Float m1 e1) (Float m2 e2) =
     (let e = min e1 e2
      in round53 (m1 * 2 ^ nat (e1 - e) + m2 * 2 ^ nat (e2 - e)) e)"

text \<open>
  Division, for a divisor that is not zero: the quotient of the mantissas is taken with
  at least 55 bits, and a last bit records whether anything was left over, so that the
  rounding sees on which side of a tie the exact quotient lies.
\<close>

fun fdiv :: "pyfloat \<Rightarrow> pyfloat \<Rightarrow> pyfloat" where
  "fdiv (Float m1 e1) (Float m2 e2) =
     (let s = max 0 (55 + bitlen \<bar>m2\<bar> - bitlen \<bar>m1\<bar>);
          n = \<bar>m1\<bar> * 2 ^ nat s;
          q = n div \<bar>m2\<bar>;
          sticky = (if n mod \<bar>m2\<bar> = 0 then 0 else 1)
      in round53 (sgn m1 * sgn m2 * (2 * q + sticky)) (e1 - e2 - s - 1))"

text \<open>
  The integer square root, one bit at a time from the top: \<open>isqrt n\<close> is the greatest
  \<open>r\<close> with \<open>r * r \<le> n\<close>.
\<close>

primrec isqrt_bits :: "nat \<Rightarrow> int \<Rightarrow> int \<Rightarrow> int" where
  "isqrt_bits 0 r n = r"
| "isqrt_bits (Suc i) r n =
     (let c = r + 2 ^ i in isqrt_bits i (if c * c \<le> n then c else r) n)"

definition isqrt :: "int \<Rightarrow> int" where
  "isqrt n = isqrt_bits (nat (bitlen n)) 0 n"

text \<open>
  Square root, for an argument that is not negative: the mantissa is scaled to at least
  110 bits with an even exponent, its integer root taken, and a last bit records
  whether the root is exact.
\<close>

fun fsqrt :: "pyfloat \<Rightarrow> pyfloat" where
  "fsqrt (Float m e) =
     (if m \<le> 0 then Float 0 0
      else
        (let s0 = max 0 (110 - bitlen m);
             s = (if even (e - s0) then s0 else s0 + 1);
             n = m * 2 ^ nat s;
             r = isqrt n;
             sticky = (if r * r = n then 0 else 1)
         in round53 (2 * r + sticky) ((e - s) div 2 - 1)))"

text \<open>
  The float literals of the code, \<open>0.1\<close> and \<open>0.3\<close>, and those used to run the model:
  each is the double nearest to the decimal fraction.
\<close>

definition float_0_1 :: pyfloat where "float_0_1 = Float 7205759403792794 (- 56)"
definition float_0_3 :: pyfloat where "float_0_3 = Float 5404319552844595 (- 54)"
definition float_0_31 :: pyfloat where "float_0_31 = Float 5584463537939415 (- 54)"
definition float_0_6 :: pyfloat where "float_0_6 = Float 5404319552844595 (- 53)"
definition float_0_8 :: pyfloat where "float_0_8 = Float 7205759403792794 (- 53)"
definition float_0_9 :: pyfloat where "float_0_9 = Float 8106479329266893 (- 53)"
definition float_1 :: pyfloat where "float_1 = Float 4503599627370496 (- 52)"
definition float_0 :: pyfloat where "float_0 = Float 0 0"

section \<open>Knowledge base (\<open>data/symptoms_diseases.json\<close>)\<close>

text \<open>
  One entry of the knowledge base: the object stored under a disease name, with its keys
  "symptoms", "severity", "advice" and "description". The code reads them with
  \<open>data.get\<close>, so each may be missing, hence options.
\<close>

record disease_entry =
  symptoms_of :: "pystr list option"
  severity_of :: "pystr option"
  advice_of :: "pystr option"
  description_of :: "pystr option"

text \<open>
  A Python \<open>dict\<close> iterates in insertion order and holds each key once: an association
  list whose keys are distinct. \<open>dict_of\<close> builds it from the members of a JSON object
  in file order, as \<open>json.load\<close> does: a repeated name keeps its first position and takes
  the last value (\<open>AList.update\<close>).
\<close>

type_synonym knowledge_base = "(pystr \<times> disease_entry) list"

definition dict_of :: "('k \<times> 'v) list \<Rightarrow> ('k \<times> 'v) list" where
  "dict_of members = foldl (\<lambda>d (k, v). AList.update k v d) [] members"

text \<open>
  The file system as far as the constructors look at it: a path is absent, or holds a
  text that \<open>json.load\<close> either rejects or parses into an object keyed by disease name.
\<close>

datatype file_content =
    Malformed
  | JsonObject "(pystr \<times> disease_entry) list"

type_synonym filesystem = "pystr \<rightharpoonup> file_content"

fun json_load :: "file_content \<Rightarrow> exn + knowledge_base" where
  "json_load Malformed = Inl JSONDecodeError"
| "json_load (JsonObject members) = Inr (dict_of members)"

section \<open>\<open>app/severity_manager.py\<close>\<close>

record SeverityManager =
  urgent_symptoms :: "(pystr \<times> pystr) list"
  disease_data :: knowledge_base

definition URGENT :: pystr where
  "URGENT = py ''URGENT''"

definition urgent_symptoms_table :: "(pystr \<times> pystr) list" where
  "urgent_symptoms_table = [
     (py ''difficult'' @ e_acute @ py '' '' @ a_grave @ py '' respirer'', URGENT),
     (py ''douleur thoracique'', URGENT),
     (py ''saignement abondant'', URGENT),
     (py ''paralysie'', URGENT),
     (py ''perte de conscience'', URGENT),
     (py ''br'' @ u_circ @ py ''lure grave'', URGENT),
     (py ''crise convulsive'', URGENT),
     (py ''douleur abdominale s'' @ e_acute @ py ''v'' @ e_grave @ py ''re'', URGENT),
     (py ''vomissement sang'', URGENT),
     (py ''gonflement visage'', URGENT),
     (py ''oppression'', URGENT),
     (py ''essoufflement'', URGENT),
     (py ''sifflement respiratoire'', URGENT),
     (py ''faiblesse soudaine'', URGENT),
     (py ''trouble de la parole'', URGENT),
     (py ''vision trouble soudaine'', URGENT),
     (py ''maux de t'' @ e_circ @ py ''te violents'', URGENT)
   ]"

text \<open>
  \<open>__init__\<close>: a missing file (\<open>FileNotFoundError\<close>) and a file that does not parse
  (\<open>JSONDecodeError\<close>) both leave \<open>disease_data\<close> empty; the constructor does not raise.
\<close>

definition SeverityManager_init :: "filesystem \<Rightarrow> pystr \<Rightarrow> SeverityManager" where
  "SeverityManager_init fs data_path =
     \<lparr> urgent_symptoms = urgent_symptoms_table,
       disease_data =
         (case fs data_path of
            None \<Rightarrow> []
          | Some content \<Rightarrow>
              (case json_load content of
                 Inl e \<Rightarrow> []
               | Inr data \<Rightarrow> data)) \<rparr>"

text \<open>
  The inner loop of \<open>check_symptom_severity\<close>: the level of the first urgent phrase, in
  table order, that occurs in the lowercased symptom (\<open>break\<close> after the first hit).
\<close>

fun first_urgent :: "(pystr \<times> pystr) list \<Rightarrow> pystr \<Rightarrow> pystr option" where
  "first_urgent [] symptom_lower = None"
| "first_urgent ((urgent_symptom, level) # rest) symptom_lower =
     (if sublist urgent_symptom symptom_lower then Some level
      else first_urgent rest symptom_lower)"

fun check_symptom_severity ::
  "(pystr \<Rightarrow> pystr) \<Rightarrow> SeverityManager \<Rightarrow> pystr list \<Rightarrow> (pystr \<times> pystr) list" where
  "check_symptom_severity lower self [] = []"
| "check_symptom_severity lower self (symptom # rest) =
     (case first_urgent (urgent_symptoms self) (lower symptom) of
        Some level \<Rightarrow> (symptom, level) # check_symptom_severity lower self rest
      | None \<Rightarrow> check_symptom_severity lower self rest)"

definition inconnue :: pystr where
  "inconnue = py ''inconnue''"

text \<open>\<open>data.get("severity", "inconnue")\<close>.\<close>

definition get_severity :: "disease_entry \<Rightarrow> pystr" where
  "get_severity data = (case severity_of data of Some s \<Rightarrow> s | None \<Rightarrow> inconnue)"

fun severity_loop :: "(pystr \<Rightarrow> pystr) \<Rightarrow> pystr \<Rightarrow> knowledge_base \<Rightarrow> pystr" where
  "severity_loop lower disease_lower [] = inconnue"
| "severity_loop lower disease_lower ((disease_name, data) # rest) =
     (if sublist disease_lower (lower disease_name) then get_severity data
      else severity_loop lower disease_lower rest)"

definition get_disease_severity ::
  "(pystr \<Rightarrow> pystr) \<Rightarrow> SeverityManager \<Rightarrow> pystr \<Rightarrow> pystr" where
  "get_disease_severity lower self disease =
     severity_loop lower (lower disease) (disease_data self)"

definition urgente :: pystr where "urgente = py ''urgente''"
definition critique :: pystr where "critique = py ''critique''"

text \<open>The two texts \<open>generate_urgency_alert\<close> can return besides the empty string.\<close>

definition symptom_alert :: "(pystr \<times> pystr) list \<Rightarrow> pystr" where
  "symptom_alert urgent =
     join newline
       ([py ''**ALERTE URGENCE M'' @ E_acute @ py ''DICALE**'' @ newline,
         py ''**Sympt'' @ o_circ @ py ''mes urgents d'' @ e_acute @ py ''tect'' @ e_acute
           @ py ''s :**'']
        @ map (\<lambda>(symptom, level). bullet @ py '' '' @ symptom @ py '' ('' @ level @ py '')'')
            urgent
        @ [newline @ py ''**ACTION REQUISE :**'',
           py ''1. **COMPOSEZ LE 15 IMM'' @ E_acute @ py ''DIATEMENT**'',
           py ''2. **Ne conduisez pas** vous-m'' @ e_circ @ py ''me '' @ a_grave
             @ py '' l'' @ [0x27] @ py ''h'' @ o_circ @ py ''pital'',
           py ''3. **Restez calme** et suivez les instructions'',
           py ''4. **Pr'' @ e_acute @ py ''venez quelqu'' @ [0x27] @ py ''un** de votre situation'',
           py ''5. **Pr'' @ e_acute @ py ''parez vos papiers** d'' @ [0x27] @ py ''identit''
             @ e_acute @ py '' et carte vitale''])"

definition disease_alert :: "pystr \<Rightarrow> pystr" where
  "disease_alert disease =
     py ''**Alerte** : La condition '' @ [0x27] @ disease @ [0x27] @ py '' peut ''
       @ e_circ @ py ''tre grave. ''
       @ py ''Consultez un m'' @ e_acute @ py ''decin rapidement ou contactez le 15 pour avis.''"

text \<open>
  The second loop of \<open>generate_urgency_alert\<close>, over the predictions: it returns at the
  first disease whose score exceeds 0.3 and whose severity is "urgente" or "critique".
\<close>

fun prediction_loop ::
  "(pystr \<Rightarrow> pystr) \<Rightarrow> SeverityManager \<Rightarrow> (pystr \<times> pyfloat) list \<Rightarrow> pystr" where
  "prediction_loop lower self [] = []"
| "prediction_loop lower self ((disease, score) # rest) =
     (if valof score > valof float_0_3 then
        (let severity = get_disease_severity lower self disease in
         if severity \<in> set [urgente, critique] then disease_alert disease
         else prediction_loop lower self rest)
      else prediction_loop lower self rest)"

definition generate_urgency_alert ::
  "(pystr \<Rightarrow> pystr) \<Rightarrow> SeverityManager \<Rightarrow> pystr list \<Rightarrow> (pystr \<times> pyfloat) list \<Rightarrow> pystr"
  where
  "generate_urgency_alert lower self symptoms predictions =
     (let urgent_found = check_symptom_severity lower self symptoms in
      if urgent_found \<noteq> [] then symptom_alert urgent_found
      else prediction_loop lower self predictions)"

text \<open>Predicates that name the tests of the three loops above.\<close>

definition is_urgent :: "(pystr \<Rightarrow> pystr) \<Rightarrow> pystr \<Rightarrow> bool" where
  "is_urgent lower symptom \<longleftrightarrow>
     (\<exists>phrase \<in> fst ` set urgent_symptoms_table. sublist phrase (lower symptom))"

definition qualifies ::
  "(pystr \<Rightarrow> pystr) \<Rightarrow> SeverityManager \<Rightarrow> pystr \<times> pyfloat \<Rightarrow> bool" where
  "qualifies lower self p \<longleftrightarrow>
     valof (snd p) > valof float_0_3 \<and> get_disease_severity lower self (fst p) \<in> {urgente, critique}"

definition name_contains :: "(pystr \<Rightarrow> pystr) \<Rightarrow> pystr \<Rightarrow> pystr \<times> disease_entry \<Rightarrow> bool" where
  "name_contains lower disease item \<longleftrightarrow> sublist (lower disease) (lower (fst item))"

section \<open>\<open>app/disease_predictor.py\<close>\<close>

text \<open>
  The vector space comes from scikit-learn. A row of the tf-idf matrix is a list of
  floats. Fitting and projecting, \<open>TfidfVectorizer.fit_transform\<close> and \<open>.transform\<close>,
  stay parameters of the model: the constructor receives \<open>fit_transform\<close>, which fails
  or returns the fitted projection together with the matrix of the descriptions.

  \<open>cosine_similarity\<close> follows \<open>sklearn.metrics.pairwise\<close>, in double arithmetic. Both
  arguments are L2-normalised row by row: the squares of the entries are summed from
  left to right, a row whose sum is zero is left as it is, any other row is divided by
  the square root of the sum. Then the rows are multiplied, the products being summed
  from left to right. Nothing clips the result. It raises \<open>ValueError\<close> on a matrix
  without rows or without columns and on rows of a different dimension. The result is
  the row of the similarity matrix for the one vector \<open>X\<close> (\<open>similarities[0]\<close> in the
  code).
\<close>

type_synonym vector = "pyfloat list"

definition sum_of_squares :: "vector \<Rightarrow> pyfloat" where
  "sum_of_squares v = foldl (\<lambda>sum x. fadd sum (fmul x x)) (Float 0 0) v"

definition l2_normalize :: "vector \<Rightarrow> vector" where
  "l2_normalize v =
     (let sum = sum_of_squares v
      in if valof sum = 0 then v else map (\<lambda>x. fdiv x (fsqrt sum)) v)"

definition dot :: "vector \<Rightarrow> vector \<Rightarrow> pyfloat" where
  "dot u v = foldl (\<lambda>sum (a, b). fadd sum (fmul a b)) (Float 0 0) (zip u v)"

definition cosine_similarity :: "vector \<Rightarrow> vector list \<Rightarrow> exn + pyfloat list" where
  "cosine_similarity X Y =
     (if X = [] \<or> Y = [] \<or> (\<exists>y \<in> set Y. length y \<noteq> length X) then Inl ValueError
      else Inr (map (\<lambda>y. dot (l2_normalize X) (l2_normalize y)) Y))"

text \<open>
  The predictor object. \<open>calls\<close> is a ghost field: the library calls made through the
  object so far, oldest first. The Python object has no such attribute; the field makes
  "no vector computation was attempted" a statement about the state.
\<close>

datatype library_call = Transform pystr | CosineSimilarity

record DiseasePredictor =
  dp_disease_data :: knowledge_base
  diseases :: "pystr list"
  symptom_descriptions :: "pystr list"
  vectorizer :: "pystr \<Rightarrow> exn + vector"
  symptom_vectors :: "vector list"
  calls :: "library_call list"

text \<open>
  \<open>__init__\<close>: raises \<open>FileNotFoundError\<close> when the path does not exist; an error of
  \<open>json.load\<close> or of the fit propagates.
\<close>

definition DiseasePredictor_init ::
  "(pystr list \<Rightarrow> exn + (pystr \<Rightarrow> exn + vector) \<times> vector list)
   \<Rightarrow> filesystem \<Rightarrow> pystr \<Rightarrow> exn + DiseasePredictor" where
  "DiseasePredictor_init fit_transform fs data_path =
     (case fs data_path of
        None \<Rightarrow> Inl FileNotFoundError
      | Some content \<Rightarrow>
          (case json_load content of
             Inl e \<Rightarrow> Inl e
           | Inr data \<Rightarrow>
               (let descriptions =
                      map (\<lambda>(disease, entry).
                             join (py '' '')
                               (case symptoms_of entry of Some l \<Rightarrow> l | None \<Rightarrow> []))
                        data
                in case fit_transform descriptions of
                     Inl e \<Rightarrow> Inl e
                   | Inr (transform, vectors) \<Rightarrow>
                       Inr \<lparr> dp_disease_data = data,
                             diseases = map fst data,
                             symptom_descriptions = descriptions,
                             vectorizer = transform,
                             symptom_vectors = vectors,
                             calls = [] \<rparr>)))"

text \<open>
  \<open>xs.sort(key=key, reverse=True)\<close>: CPython reverses the list, sorts it with its stable
  ascending sort, and reverses the result, so that equal keys keep their original order.
\<close>

definition sort_reverse :: "('a \<Rightarrow> 'k::linorder) \<Rightarrow> 'a list \<Rightarrow> 'a list" where
  "sort_reverse key xs = rev (sort_key key (rev xs))"

text \<open>
  \<open>predict_diseases\<close> returns its result and the object afterwards. The \<open>try\<close> block
  covers the two library calls; \<open>except Exception\<close> turns any error into the empty list.
  The scores are compared as floats: with the double \<open>0.1\<close> in the filter, with each
  other in the sort.
\<close>

definition predict_diseases ::
  "DiseasePredictor \<Rightarrow> pystr list \<Rightarrow> (pystr \<times> pyfloat) list \<times> DiseasePredictor" where
  "predict_diseases self user_symptoms =
     (if user_symptoms = [] then ([], self)
      else
        (let user_text = join (py '' '') user_symptoms;
             self1 = self\<lparr>calls := calls self @ [Transform user_text]\<rparr>
         in case vectorizer self user_text of
              Inl e \<Rightarrow> ([], self1)
            | Inr user_vector \<Rightarrow>
                (let self2 = self1\<lparr>calls := calls self1 @ [CosineSimilarity]\<rparr>
                 in case cosine_similarity user_vector (symptom_vectors self) of
                      Inl e \<Rightarrow> ([], self2)
                    | Inr similarities \<Rightarrow>
                        (let disease_scores = zip (diseases self) similarities;
                             filtered_scores =
                               filter (\<lambda>(disease, score). valof score > valof float_0_1)
                                 disease_scores
                         in (take 5 (sort_reverse (\<lambda>x. valof (snd x)) filtered_scores),
                             self2)))))"

text \<open>The last three steps of \<open>predict_diseases\<close>, named for the proofs.\<close>

definition ranked :: "pystr list \<Rightarrow> pyfloat list \<Rightarrow> (pystr \<times> pyfloat) list" where
  "ranked ds sims =
     take 5 (sort_reverse (\<lambda>x. valof (snd x))
               (filter (\<lambda>(disease, score). valof score > valof float_0_1) (zip ds sims)))"

section \<open>\<open>app/nlp_processor.py\<close>\<close>

text \<open>
  \<open>extract_symptoms\<close> is called with whatever object the caller passes; the values that
  matter for its guards are modelled: \<open>None\<close>, booleans, integers, strings and lists.
\<close>

datatype pyval =
    PyNone
  | PyBool bool
  | PyInt int
  | PyStr pystr
  | PyList "pyval list"

text \<open>Truth value of an object, as \<open>not text\<close> tests it.\<close>

fun truthy :: "pyval \<Rightarrow> bool" where
  "truthy PyNone = False"
| "truthy (PyBool b) = b"
| "truthy (PyInt i) = (i \<noteq> 0)"
| "truthy (PyStr s) = (s \<noteq> [])"
| "truthy (PyList xs) = (xs \<noteq> [])"

text \<open>\<open>isinstance(text, str)\<close>.\<close>

fun isinstance_str :: "pyval \<Rightarrow> bool" where
  "isinstance_str (PyStr s) = True"
| "isinstance_str v = False"

text \<open>
  \<open>text.lower()\<close> on an object: only a string has the method; on the other values the
  attribute lookup raises \<open>AttributeError\<close>.
\<close>

fun lower_method :: "(pystr \<Rightarrow> pystr) \<Rightarrow> pyval \<Rightarrow> exn + pystr" where
  "lower_method lower (PyStr s) = Inr (lower s)"
| "lower_method lower v = Inl AttributeError"

text \<open>The attributes of a spaCy token that \<open>preprocess_text\<close> reads.\<close>

record token =
  token_text :: pystr
  token_lemma :: pystr
  is_stop :: bool
  is_punct :: bool
  is_alpha :: bool

text \<open>
  The processor object: \<open>nlp\<close> is the loaded spaCy pipeline, which turns a text into its
  tokens or raises; \<open>medical_terms\<close> is a set of strings.
\<close>

record NLPProcessor =
  nlp :: "pystr \<Rightarrow> exn + token list"
  medical_terms :: "pystr set"

text \<open>
  What the module takes from the runtime besides \<open>str.lower\<close>: \<open>re.sub(pattern, repl, s)\<close>,
  the truth value of \<open>re.search(pattern, s, re.IGNORECASE)\<close>, and \<open>list(s)\<close> for a set
  \<open>s\<close>, whose order is that of the hash table.
\<close>

record runtime =
  re_sub :: "pystr \<Rightarrow> pystr \<Rightarrow> pystr \<Rightarrow> pystr"
  re_search :: "pystr \<Rightarrow> pystr \<Rightarrow> bool"
  list_of_set :: "pystr set \<Rightarrow> pystr list"

definition medical_terms_literal :: "pystr list" where
  "medical_terms_literal = [
     py ''gorge'', py ''fi'' @ e_grave @ py ''vre'', py ''toux'', py ''fatigue'',
     py ''nez'', py ''courbature'', py ''t'' @ e_circ @ py ''te'',
     py ''naus'' @ e_acute @ py ''e'', py ''vomissement'', py ''douleur'', py ''mal'',
     py ''frisson'', e_acute @ py ''ternuement'', py ''rhume'', py ''grippe'',
     py ''angine'', py ''migraine'', py ''gastro'', py ''diarrh'' @ e_acute @ py ''e'',
     py ''respiration'', py ''allergie'', py ''d'' @ e_acute @ py ''mangeaison'',
     py ''yeux'', py ''abdominal'', py ''facial'', py ''sinus'', py ''blocage'',
     py ''ganglion'', py ''enrouement'', py ''oreille'', py ''audition'', py ''thoracique'',
     py ''saignement'', py ''paralysie'', py ''convulsion'',
     py ''br'' @ u_circ @ py ''lure'', py ''urinaire'', py ''articulation'', py ''raideur'',
     py ''essoufflement'', py ''oppression'', py ''sifflement'', py ''transpiration'',
     py ''vertige'', e_acute @ py ''tourdissement'', py ''palpitation'', py ''crampe'',
     py ''engourdissement'', py ''picotement'', py ''faiblesse'', py ''perte'',
     py ''vision'', py ''auditif'', py ''olfactif'', py ''go'' @ u_circ @ py ''t'',
     e_acute @ py ''quilibre'', py ''coordination'', py ''m'' @ e_acute @ py ''moire'',
     py ''concentration'', py ''sommeil'', py ''app'' @ e_acute @ py ''tit'', py ''soif'',
     py ''urine'', py ''selles'', py ''constipation'', py ''ballonnement'',
     py ''flatulence'', py ''br'' @ u_circ @ py ''lure'', py ''reflux'',
     py ''acidit'' @ e_acute, py ''plaie'', py ''coupure'', py ''ecchymose'',
     py ''gonflement'', py ''rougeur'', py ''chaleur'',
     py ''d'' @ e_acute @ py ''mangeaison'', py ''desquamation'', py ''bouton'',
     e_acute @ py ''ruption'', py ''rougeole'', py ''varicelle'', py ''urticaire'',
     py ''ecz'' @ e_acute @ py ''ma'', py ''psoriasis''
   ]"

text \<open>
  \<open>__init__\<close>: \<open>spacy.load\<close> returns the pipeline or raises; an \<open>OSError\<close> is turned
  into an \<open>ImportError\<close>.
\<close>

definition NLPProcessor_init :: "exn + (pystr \<Rightarrow> exn + token list) \<Rightarrow> exn + NLPProcessor" where
  "NLPProcessor_init spacy_load =
     (case spacy_load of
        Inl e \<Rightarrow> (if e = OSError then Inl ImportError else Inl e)
      | Inr pipeline \<Rightarrow>
          Inr \<lparr> nlp = pipeline, medical_terms = set medical_terms_literal \<rparr>)"

definition clean_pattern :: pystr where
  "clean_pattern =
     py ''[^'' @ [0x5C] @ py ''w'' @ [0x5C] @ py ''s'' @ a_grave @ a_circ @ a_uml @ e_acute @ e_grave @ e_circ @ e_uml
       @ i_circ @ i_uml @ o_circ @ o_uml @ u_grave @ u_circ @ u_uml @ c_cedil @ py '']''"

definition preprocess_text ::
  "(pystr \<Rightarrow> pystr) \<Rightarrow> runtime \<Rightarrow> NLPProcessor \<Rightarrow> pyval \<Rightarrow> exn + pystr list" where
  "preprocess_text lower rt self text =
     (if \<not> truthy text \<or> \<not> isinstance_str text then Inr []
      else
        (case lower_method lower text of
           Inl e \<Rightarrow> Inl e
         | Inr lowered \<Rightarrow>
             (case nlp self (re_sub rt clean_pattern (py '' '') lowered) of
                Inl e \<Rightarrow> Inl e
              | Inr doc \<Rightarrow>
                  Inr (map (\<lambda>token. lower (token_lemma token))
                         (filter (\<lambda>token. \<not> is_stop token \<and> \<not> is_punct token
                                     \<and> is_alpha token \<and> length (token_text token) > 1)
                            doc)))))"

definition medical_patterns :: "(pystr \<times> pystr list) list" where
  "medical_patterns = [
     (py ''mal de gorge'', [py ''gorge'', py ''mal'']),
     (py ''nez qui coule'', [py ''nez'', py ''couler'']),
     (py ''nez bouch'' @ e_acute, [py ''nez'', py ''bouch'' @ e_acute]),
     (py ''maux de t'' @ e_circ @ py ''te'',
      [py ''t'' @ e_circ @ py ''te'', py ''mal'', py ''migraine'']),
     (py ''courbatures'', [py ''courbature'']),
     (py ''naus'' @ e_acute @ py ''es'', [py ''naus'' @ e_acute @ py ''e'']),
     (py ''vomissements'', [py ''vomissement'']),
     (py ''fi'' @ e_grave @ py ''vre'', [py ''fi'' @ e_grave @ py ''vre'']),
     (py ''toux'', [py ''toux'']),
     (py ''fatigue'', [py ''fatigue'']),
     (py ''difficult'' @ e_acute @ py '' '' @ a_grave @ py '' respirer'',
      [py ''respiration'', py ''difficult'' @ e_acute, py ''essoufflement'']),
     (py ''essoufflement'', [py ''essoufflement'']),
     (py ''oppression thoracique'', [py ''oppression'', py ''thoracique'']),
     (py ''douleur thoracique'', [py ''thoracique'', py ''douleur'']),
     (py ''yeux qui piquent'', [py ''yeux'', py ''piquer'']),
     (py ''d'' @ e_acute @ py ''mangeaisons'', [py ''d'' @ e_acute @ py ''mangeaison'']),
     (py ''douleur abdominale'', [py ''abdominal'', py ''douleur'']),
     (py ''douleur faciale'', [py ''facial'', py ''douleur'']),
     (py ''frissons'', [py ''frisson'']),
     (py ''diarrh'' @ e_acute @ py ''e'', [py ''diarrh'' @ e_acute @ py ''e'']),
     (py ''ganglions'', [py ''ganglion'']),
     (py ''enrouement'', [py ''enrouement'']),
     (py ''perte de voix'', [py ''voix'', py ''perte'']),
     (py ''douleur oreille'', [py ''oreille'', py ''douleur'']),
     (py ''baisse audition'', [py ''audition'', py ''baisse'']),
     (py ''saignement abondant'', [py ''saignement'', py ''abondant'']),
     (py ''paralysie'', [py ''paralysie'']),
     (py ''crise convulsive'', [py ''convulsive'', py ''crise'']),
     (py ''br'' @ u_circ @ py ''lure grave'', [py ''br'' @ u_circ @ py ''lure'', py ''grave'']),
     (py ''br'' @ u_circ @ py ''lures urinaires'',
      [py ''urinaire'', py ''br'' @ u_circ @ py ''lure'']),
     (py ''douleur articulation'', [py ''articulation'', py ''douleur'']),
     (py ''raideur'', [py ''raideur'']),
     (py ''vertiges'', [py ''vertige'']),
     (e_acute @ py ''tourdissements'', [e_acute @ py ''tourdissement'']),
     (py ''palpitations'', [py ''palpitation'']),
     (py ''transpiration excessive'', [py ''transpiration'', py ''excessive'']),
     (py ''perte de conscience'', [py ''conscience'', py ''perte'']),
     (py ''trouble de la vision'', [py ''vision'', py ''trouble'']),
     (py ''trouble de l'' @ [0x27] @ e_acute @ py ''quilibre'',
      [e_acute @ py ''quilibre'', py ''trouble''])
   ]"

definition regex_patterns :: "(pystr \<times> pystr) list" where
  "regex_patterns = [
     (py ''temp'' @ e_acute @ py ''rature.*?('' @ [0x5C] @ py ''d+[.,]?'' @ [0x5C] @ py ''d*)'',
      py ''fi'' @ e_grave @ py ''vre''),
     (py ''fi'' @ e_grave @ py ''vre.*?('' @ [0x5C] @ py ''d+[.,]?'' @ [0x5C] @ py ''d*)'',
      py ''fi'' @ e_grave @ py ''vre avec temp'' @ e_acute @ py ''rature''),
     (py ''depuis.*?('' @ [0x5C] @ py ''d+).*?(heure|jour|semaine)'',
      py ''dur'' @ e_acute @ py ''e sp'' @ e_acute @ py ''cifi'' @ e_acute @ py ''e''),
     (py ''douleur.*?(forte|s'' @ e_acute @ py ''v'' @ e_grave @ py ''re|intense)'',
      py ''douleur s'' @ e_acute @ py ''v'' @ e_grave @ py ''re''),
     (py ''douleur.*?(l'' @ e_acute @ py ''g'' @ e_grave
       @ py ''re|mod'' @ e_acute @ py ''r'' @ e_acute @ py ''e)'',
      py ''douleur mod'' @ e_acute @ py ''r'' @ e_acute @ py ''e'')
   ]"

definition symptom_map :: "(pystr \<times> pystr) list" where
  "symptom_map = [
     (py ''fi'' @ e_grave @ py ''vre'', py ''fi'' @ e_grave @ py ''vre''),
     (py ''toux'', py ''toux''),
     (py ''fatigue'', py ''fatigue''),
     (py ''naus'' @ e_acute @ py ''e'', py ''naus'' @ e_acute @ py ''es''),
     (py ''vomissement'', py ''vomissements''),
     (py ''frisson'', py ''frissons''),
     (py ''diarrh'' @ e_acute @ py ''e'', py ''diarrh'' @ e_acute @ py ''e''),
     (py ''d'' @ e_acute @ py ''mangeaison'', py ''d'' @ e_acute @ py ''mangeaisons''),
     (py ''courbature'', py ''courbatures''),
     (py ''vertige'', py ''vertiges''),
     (py ''palpitation'', py ''palpitations'')
   ]"

text \<open>\<open>symptom_map.get(token, token)\<close>.\<close>

definition get_symptom_name_from_token :: "pystr \<Rightarrow> pystr" where
  "get_symptom_name_from_token token =
     (case map_of symptom_map token of Some name \<Rightarrow> name | None \<Rightarrow> token)"

text \<open>
  The four passes of \<open>extract_symptoms\<close>; each takes the list \<open>detected_symptoms\<close> built
  so far and returns it with what the pass appends.
\<close>

fun direct_search :: "pystr \<Rightarrow> pystr list \<Rightarrow> pystr list \<Rightarrow> pystr list" where
  "direct_search text_lower [] detected_symptoms = detected_symptoms"
| "direct_search text_lower (pattern # rest) detected_symptoms =
     direct_search text_lower rest
       (if sublist pattern text_lower then detected_symptoms @ [pattern]
        else detected_symptoms)"

fun token_search ::
  "pystr list \<Rightarrow> (pystr \<times> pystr list) list \<Rightarrow> pystr list \<Rightarrow> pystr list" where
  "token_search tokens [] detected_symptoms = detected_symptoms"
| "token_search tokens ((pattern, keywords) # rest) detected_symptoms =
     token_search tokens rest
       (if pattern \<notin> set detected_symptoms
           \<and> (\<forall>keyword \<in> set keywords. \<exists>token \<in> set tokens. sublist keyword token)
        then detected_symptoms @ [pattern]
        else detected_symptoms)"

fun term_search :: "NLPProcessor \<Rightarrow> pystr list \<Rightarrow> pystr list \<Rightarrow> pystr list" where
  "term_search self [] detected_symptoms = detected_symptoms"
| "term_search self (token # rest) detected_symptoms =
     term_search self rest
       (if token \<in> medical_terms self then
          (let symptom_name = get_symptom_name_from_token token in
           if symptom_name \<noteq> [] \<and> symptom_name \<notin> set detected_symptoms
           then detected_symptoms @ [symptom_name]
           else detected_symptoms)
        else detected_symptoms)"

fun regex_search ::
  "runtime \<Rightarrow> pystr \<Rightarrow> (pystr \<times> pystr) list \<Rightarrow> pystr list \<Rightarrow> pystr list" where
  "regex_search rt text_lower [] detected_symptoms = detected_symptoms"
| "regex_search rt text_lower ((pattern, symptom) # rest) detected_symptoms =
     regex_search rt text_lower rest
       (if re_search rt pattern text_lower \<and> symptom \<notin> set detected_symptoms
        then detected_symptoms @ [symptom]
        else detected_symptoms)"

text \<open>
  \<open>extract_symptoms\<close>. Its only guard is \<open>if not text\<close>; after the call of
  \<open>preprocess_text\<close> it evaluates \<open>text.lower()\<close> on the argument as it came in.
\<close>

definition extract_symptoms ::
  "(pystr \<Rightarrow> pystr) \<Rightarrow> runtime \<Rightarrow> NLPProcessor \<Rightarrow> pyval \<Rightarrow> exn + pystr list" where
  "extract_symptoms lower rt self text =
     (if \<not> truthy text then Inr []
      else
        (case preprocess_text lower rt self text of
           Inl e \<Rightarrow> Inl e
         | Inr tokens \<Rightarrow>
             (case lower_method lower text of
                Inl e \<Rightarrow> Inl e
              | Inr text_lower \<Rightarrow>
                  (let detected1 = direct_search text_lower (map fst medical_patterns) [];
                       detected2 = token_search tokens medical_patterns detected1;
                       detected3 = term_search self tokens detected2;
                       detected4 = regex_search rt text_lower regex_patterns detected3
                   in Inr (list_of_set rt (set detected4))))))"

section \<open>A small knowledge base to run the model on\<close>

definition moderee :: pystr where
  "moderee = py ''mod'' @ e_acute @ py ''r'' @ e_acute @ py ''e''"

definition legere :: pystr where
  "legere = py ''l'' @ e_acute @ py ''g'' @ e_grave @ py ''re''"

definition demo_entry :: "pystr list \<Rightarrow> pystr \<Rightarrow> disease_entry" where
  "demo_entry symptom_list tier =
     \<lparr> symptoms_of = Some symptom_list, severity_of = Some tier,
       advice_of = None, description_of = None \<rparr>"

definition demo_members :: "(pystr \<times> disease_entry) list" where
  "demo_members = [
     (py ''Grippe'',
      demo_entry [py ''fi'' @ e_grave @ py ''vre'', py ''toux'', py ''courbatures''] moderee),
     (py ''Infarctus du myocarde'',
      demo_entry [py ''douleur thoracique'', py ''essoufflement''] critique),
     (py ''AVC'', demo_entry [py ''paralysie'', py ''trouble de la parole''] urgente),
     (py ''Rhume'', demo_entry [py ''toux'', py ''nez qui coule''] legere),
     (py ''Angine'', demo_entry [py ''mal de gorge'', py ''douleur'', py ''toux''] moderee),
     (py ''Bronchite'', demo_entry [py ''toux'', py ''essoufflement''] moderee),
     (py ''Asthme'', demo_entry [py ''toux'', py ''oppression''] urgente),
     (py ''Pneumonie'',
      demo_entry [py ''toux'', py ''fi'' @ e_grave @ py ''vre'', py ''douleur thoracique''] urgente),
     (py ''Botulisme'',
      demo_entry [py ''paralysie'', py ''douleur abdominale'', py ''toux''] critique)
   ]"

definition demo_path :: pystr where
  "demo_path = py ''data/symptoms_diseases.json''"

definition demo_fs :: filesystem where
  "demo_fs = [demo_path \<mapsto> JsonObject demo_members]"

definition demo_manager :: SeverityManager where
  "demo_manager = SeverityManager_init demo_fs demo_path"

text \<open>
  A toy vector space with three features (the words "toux", "douleur", "paralysie") in
  place of the fitted tf-idf space. A text with one of the words has weight 1 on it;
  with "toux" and "douleur" the weights 0.6 and 0.8; with all three, three equal
  weights, each the double \<open>1 / sqrt 3\<close> that normalising \<open>[1, 1, 1]\<close> gives.
\<close>

definition float_third_root :: pyfloat where
  "float_third_root = Float 5200308914369309 (- 53)"

definition demo_vector :: "pystr \<Rightarrow> vector" where
  "demo_vector text =
     (if sublist (py ''toux'') text \<and> sublist (py ''douleur'') text
         \<and> sublist (py ''paralysie'') text
      then [float_third_root, float_third_root, float_third_root]
      else if sublist (py ''toux'') text \<and> sublist (py ''douleur'') text
      then [float_0_6, float_0_8, float_0]
      else if sublist (py ''toux'') text then [float_1, float_0, float_0]
      else if sublist (py ''douleur'') text then [float_0, float_1, float_0]
      else if sublist (py ''paralysie'') text then [float_0, float_0, float_1]
      else [float_0, float_0, float_0])"

definition demo_transform :: "pystr \<Rightarrow> exn + vector" where
  "demo_transform text = Inr (demo_vector text)"

definition demo_fit_transform ::
  "pystr list \<Rightarrow> exn + (pystr \<Rightarrow> exn + vector) \<times> vector list" where
  "demo_fit_transform descriptions =
     (if descriptions = [] then Inl ValueError
      else Inr (demo_transform, map demo_vector descriptions))"

definition demo_descriptions :: "pystr list" where
  "demo_descriptions =
     map (\<lambda>(disease, entry).
            join (py '' '') (case symptoms_of entry of Some l \<Rightarrow> l | None \<Rightarrow> []))
       demo_members"

definition demo_predictor :: DiseasePredictor where
  "demo_predictor =
     \<lparr> dp_disease_data = demo_members,
       diseases = map fst demo_members,
       symptom_descriptions = demo_descriptions,
       vectorizer = demo_transform,
       symptom_vectors = map demo_vector demo_descriptions,
       calls = [] \<rparr>"

text \<open>
  A toy runtime and pipeline for the symptom extractor: the pipeline splits at spaces
  and takes every word as its own lemma, \<open>re.sub\<close> leaves the text as it is, no regular
  expression matches, and a set is listed in lexicographic order.
\<close>

fun split_words :: "pystr \<Rightarrow> pystr \<Rightarrow> pystr list" where
  "split_words word [] = (if word = [] then [] else [word])"
| "split_words word (c # cs) =
     (if c = 0x20 then (if word = [] then split_words [] cs else word # split_words [] cs)
      else split_words (word @ [c]) cs)"

definition demo_pipeline :: "pystr \<Rightarrow> exn + token list" where
  "demo_pipeline text =
     Inr (map (\<lambda>w. \<lparr> token_text = w, token_lemma = w, is_stop = False, is_punct = False,
                      is_alpha = True \<rparr>)
            (split_words [] text))"

definition demo_processor :: NLPProcessor where
  "demo_processor = \<lparr> nlp = demo_pipeline, medical_terms = set medical_terms_literal \<rparr>"

definition demo_runtime :: runtime where
  "demo_runtime =
     \<lparr> re_sub = (\<lambda>pattern repl s. s),
       re_search = (\<lambda>pattern s. False),
       list_of_set = sorted_list_of_set \<rparr>"

definition demo_sentence :: pystr where
  "demo_sentence =
     py ''j'' @ [0x27] @ py ''ai mal '' @ a_grave @ py '' la gorge et de la fi'' @ e_grave @ py ''vre''"

text \<open>The tokens the toy pipeline keeps for \<open>demo_sentence\<close>.\<close>

definition demo_words :: "pystr list" where
  "demo_words = [py ''j'' @ [0x27] @ py ''ai'', py ''mal'', py ''la'', py ''gorge'', py ''et'',
     py ''de'', py ''la'', py ''fi'' @ e_grave @ py ''vre'']"

section \<open>Properties of the severity escalator\<close>

text \<open>Unfolding the string constants, to compute with concrete texts.\<close>

lemmas py_chars = py_def e_acute_def e_grave_def e_circ_def a_grave_def u_circ_def
  o_circ_def E_acute_def a_circ_def a_uml_def e_uml_def i_circ_def i_uml_def o_uml_def
  u_grave_def u_uml_def c_cedil_def bullet_def newline_def

lemma first_urgent_uniform:
  "\<forall>(phrase, level) \<in> set table. level = l \<Longrightarrow>
   first_urgent table s =
     (if \<exists>phrase \<in> fst ` set table. sublist phrase s then Some l else None)"
proof (induction table)
  case Nil
  then show ?case by simp
next
  case (Cons a table)
  obtain phrase level where a: "a = (phrase, level)" by (cases a)
  from Cons.prems have "level = l" and "\<forall>(phrase, level) \<in> set table. level = l"
    by (simp_all add: a)
  with Cons.IH show ?case by (simp add: a)
qed

lemma urgent_table_levels: "\<forall>(phrase, level) \<in> set urgent_symptoms_table. level = URGENT"
  by (simp add: urgent_symptoms_table_def)

lemma check_symptom_severity_table:
  "urgent_symptoms self = urgent_symptoms_table \<Longrightarrow>
   check_symptom_severity lower self symptoms =
     map (\<lambda>s. (s, URGENT)) (filter (is_urgent lower) symptoms)"
  by (induction symptoms)
     (simp_all add: first_urgent_uniform [OF urgent_table_levels] is_urgent_def)

lemma symptom_alert_not_disease_alert: "symptom_alert urgent \<noteq> disease_alert disease"
  by (simp add: symptom_alert_def disease_alert_def py_chars)

lemma symptom_alert_nonempty: "symptom_alert urgent \<noteq> []"
  by (simp add: symptom_alert_def py_chars)

lemma first_urgent_None:
  "first_urgent table s = None \<longleftrightarrow> (\<forall>phrase \<in> fst ` set table. \<not> sublist phrase s)"
  by (induction table) (auto split: if_splits)

lemma check_symptom_severity_none:
  "\<forall>symptom \<in> set symptoms. \<forall>phrase \<in> fst ` set (urgent_symptoms self).
      \<not> sublist phrase (lower symptom) \<Longrightarrow>
   check_symptom_severity lower self symptoms = []"
proof (induction symptoms)
  case Nil
  then show ?case by simp
next
  case (Cons symptom rest)
  then have "first_urgent (urgent_symptoms self) (lower symptom) = None"
    by (simp add: first_urgent_None)
  with Cons show ?case by simp
qed

lemma prediction_loop_find:
  "prediction_loop lower self predictions =
     (case find (qualifies lower self) predictions of
        None \<Rightarrow> []
      | Some (disease, score) \<Rightarrow> disease_alert disease)"
  by (induction predictions) (auto simp: qualifies_def Let_def)

lemma severity_loop_find:
  "severity_loop lower (lower disease) kb =
     (case find (name_contains lower disease) kb of
        None \<Rightarrow> inconnue
      | Some (disease_name, data) \<Rightarrow> get_severity data)"
  by (induction kb) (auto simp: name_contains_def)

lemma severity_loop_index:
  "i < length kb \<Longrightarrow> kb ! i = (disease_name, data) \<Longrightarrow>
   sublist q (lower disease_name) \<Longrightarrow>
   \<forall>j<i. \<not> sublist q (lower (fst (kb ! j))) \<Longrightarrow>
   severity_loop lower q kb = get_severity data"
proof (induction kb arbitrary: i)
  case Nil
  then show ?case by simp
next
  case (Cons item kb)
  obtain n e where item: "item = (n, e)" by (cases item)
  show ?case
  proof (cases i)
    case 0
    with Cons.prems show ?thesis by (simp add: item)
  next
    case (Suc k)
    from Cons.prems(4) Suc have "\<not> sublist q (lower n)"
      by (auto simp: item dest: spec [of _ 0])
    moreover have "severity_loop lower q kb = get_severity data"
    proof (rule Cons.IH [of k])
      show "k < length kb" using Cons.prems(1) Suc by simp
      show "kb ! k = (disease_name, data)" using Cons.prems(2) Suc by simp
      show "sublist q (lower disease_name)" by (rule Cons.prems(3))
      show "\<forall>j<k. \<not> sublist q (lower (fst (kb ! j)))"
      proof (intro allI impI)
        fix j assume "j < k"
        then have "Suc j < i" using Suc by simp
        with Cons.prems(4) have "\<not> sublist q (lower (fst ((item # kb) ! Suc j)))" by blast
        then show "\<not> sublist q (lower (fst (kb ! j)))" by simp
      qed
    qed
    ultimately show ?thesis by (simp add: item)
  qed
qed

text \<open>Evaluation of the example knowledge base.\<close>

lemma demo_manager_fields:
  "urgent_symptoms demo_manager = urgent_symptoms_table"
  "disease_data demo_manager = demo_members"
  by (simp_all add: demo_manager_def SeverityManager_init_def demo_fs_def dict_of_def
      demo_members_def py_chars)

lemmas run_strings = py_chars lower_latin1_def lower_cp_def URGENT_def urgente_def
  critique_def inconnue_def moderee_def legere_def demo_entry_def sublist_code prefix_code

text \<open>
  On texts within Latin-1 the phrases of the urgent table are their own lowercase form,
  and lowercasing works character by character. So a symptom that contains a phrase of
  the table as it is written is urgent, as is one that contains it in capitals.
\<close>

lemma sublist_map_mono:
  assumes "sublist xs ys"
  shows "sublist (map f xs) (map f ys)"
proof -
  from assms obtain ps ss where "ys = ps @ xs @ ss"
    by (auto simp: sublist_def)
  then have "map f ys = map f ps @ map f xs @ map f ss" by simp
  then show ?thesis by (metis sublist_appendI)
qed

lemma urgent_phrases_lowercase:
  "\<forall>phrase \<in> fst ` set urgent_symptoms_table. lower_latin1 phrase = phrase"
  by (simp add: urgent_symptoms_table_def run_strings)

lemma literal_phrase_is_urgent:
  assumes "phrase \<in> fst ` set urgent_symptoms_table" and "sublist phrase symptom"
  shows "is_urgent lower_latin1 symptom"
proof -
  from assms(2) have "sublist (lower_latin1 phrase) (lower_latin1 symptom)"
    unfolding lower_latin1_def by (rule sublist_map_mono)
  moreover from assms(1) urgent_phrases_lowercase have "lower_latin1 phrase = phrase"
    by blast
  ultimately have "sublist phrase (lower_latin1 symptom)"
    by simp
  with assms(1) show ?thesis
    unfolding is_urgent_def by blast
qed

lemma join_member: "x \<in> set xs \<Longrightarrow> sublist x (join sep xs)"
proof (induction sep xs rule: join.induct)
  case (1 sep)
  then show ?case by simp
next
  case (2 sep x)
  then show ?case by simp
next
  case (3 sep y z zs)
  show ?case
  proof (cases "x = y")
    case True
    then show ?thesis by simp
  next
    case False
    with 3 have "sublist x (join sep (z # zs))" by simp
    then obtain ps ss where "join sep (z # zs) = ps @ x @ ss"
      by (auto simp: sublist_def)
    then have "join sep (y # z # zs) = (y @ sep @ ps) @ x @ ss" by simp
    then show ?thesis by (metis sublist_appendI)
  qed
qed

lemma join_starts: "prefix x (join sep (x # xs))"
  by (cases xs) simp_all

text \<open>
  C2. Whenever the lowercased form of some symptom contains a phrase of the urgent-symptom
  table, \<open>generate_urgency_alert\<close> returns the symptom-level directive, whatever the
  predictions: the text starts with the emergency banner, has one line "bullet, symptom,
  (URGENT)" for every symptom of the input that contains such a phrase, and gives the
  instruction to dial 15. It is exactly \<open>symptom_alert\<close> of these symptoms in input
  order, it is never the disease-level advisory and never empty.
\<close>

theorem urgent_symptom_precedence:
  assumes "urgent_symptoms self = urgent_symptoms_table"
    and "\<exists>symptom \<in> set symptoms. \<exists>phrase \<in> fst ` set urgent_symptoms_table.
           sublist phrase (lower symptom)"
  shows "generate_urgency_alert lower self symptoms predictions =
           symptom_alert (map (\<lambda>s. (s, URGENT)) (filter (is_urgent lower) symptoms))
         \<and> prefix (py ''**ALERTE URGENCE M'' @ E_acute @ py ''DICALE**'')
               (generate_urgency_alert lower self symptoms predictions)
         \<and> (\<forall>symptom \<in> set symptoms. is_urgent lower symptom \<longrightarrow>
                sublist (bullet @ py '' '' @ symptom @ py '' (URGENT)'')
                  (generate_urgency_alert lower self symptoms predictions))
         \<and> sublist (py ''1. **COMPOSEZ LE 15 IMM'' @ E_acute @ py ''DIATEMENT**'')
               (generate_urgency_alert lower self symptoms predictions)
         \<and> (\<forall>disease. generate_urgency_alert lower self symptoms predictions
                \<noteq> disease_alert disease)
         \<and> generate_urgency_alert lower self symptoms predictions \<noteq> []"
proof -
  let ?urgent = "map (\<lambda>s. (s, URGENT)) (filter (is_urgent lower) symptoms)"
  let ?banner = "py ''**ALERTE URGENCE M'' @ E_acute @ py ''DICALE**''"
  let ?dial = "py ''1. **COMPOSEZ LE 15 IMM'' @ E_acute @ py ''DIATEMENT**''"
  from assms(2) have "filter (is_urgent lower) symptoms \<noteq> []"
    by (auto simp: is_urgent_def filter_empty_conv)
  then have result: "generate_urgency_alert lower self symptoms predictions = symptom_alert ?urgent"
    by (simp add: generate_urgency_alert_def check_symptom_severity_table [OF assms(1)])
  have banner: "prefix ?banner (symptom_alert ?urgent)"
  proof -
    have "prefix (py ''**ALERTE URGENCE M'' @ E_acute @ py ''DICALE**'' @ newline)
        (symptom_alert ?urgent)"
      unfolding symptom_alert_def append_Cons append_Nil by (rule join_starts)
    moreover have "prefix ?banner (py ''**ALERTE URGENCE M'' @ E_acute @ py ''DICALE**'' @ newline)"
      by simp
    ultimately show ?thesis by (rule prefix_order.order_trans [rotated])
  qed
  have line: "sublist (bullet @ py '' '' @ symptom @ py '' (URGENT)'') (symptom_alert ?urgent)"
    if "symptom \<in> set symptoms" and "is_urgent lower symptom" for symptom
  proof -
    from that have "(symptom, URGENT) \<in> set ?urgent" by simp
    then have "bullet @ py '' '' @ symptom @ py '' ('' @ URGENT @ py '')''
        \<in> set (map (\<lambda>(symptom, level). bullet @ py '' '' @ symptom @ py '' ('' @ level @ py '')'')
                 ?urgent)"
      by force
    then have "sublist (bullet @ py '' '' @ symptom @ py '' ('' @ URGENT @ py '')'')
        (symptom_alert ?urgent)"
      unfolding symptom_alert_def by (intro join_member) simp
    moreover have "py '' ('' @ URGENT @ py '')'' = py '' (URGENT)''"
      by (simp add: URGENT_def py_def)
    ultimately show ?thesis by simp
  qed
  have dial: "sublist ?dial (symptom_alert ?urgent)"
    unfolding symptom_alert_def by (intro join_member) simp
  from banner line dial show ?thesis
    unfolding result
    by (simp add: symptom_alert_not_disease_alert symptom_alert_nonempty)
qed

theorem urgent_symptom_precedence_witness:
  "urgent_symptoms demo_manager = urgent_symptoms_table
   \<and> (\<exists>symptom \<in> set [py ''Fatigue'', py ''PARALYSIE du bras''].
        \<exists>phrase \<in> fst ` set urgent_symptoms_table. sublist phrase (lower_latin1 symptom))
   \<and> generate_urgency_alert lower_latin1 demo_manager
        [py ''Fatigue'', py ''PARALYSIE du bras''] [(py ''Infarctus du myocarde'', float_0_9)]
      = symptom_alert [(py ''PARALYSIE du bras'', URGENT)]
   \<and> sublist (bullet @ py '' PARALYSIE du bras (URGENT)'')
        (generate_urgency_alert lower_latin1 demo_manager
           [py ''Fatigue'', py ''PARALYSIE du bras''] [(py ''Infarctus du myocarde'', float_0_9)])
   \<and> \<not> sublist (py ''Fatigue'')
        (generate_urgency_alert lower_latin1 demo_manager
           [py ''Fatigue'', py ''PARALYSIE du bras''] [(py ''Infarctus du myocarde'', float_0_9)])
   \<and> generate_urgency_alert lower_latin1 demo_manager
        [py ''Fatigue'', py ''PARALYSIE du bras''] [(py ''Infarctus du myocarde'', float_0_9)]
      \<noteq> disease_alert (py ''Infarctus du myocarde'')"
proof -
  have table: "urgent_symptoms demo_manager = urgent_symptoms_table"
    by (rule demo_manager_fields)
  have yes: "is_urgent lower_latin1 (py ''PARALYSIE du bras'')"
    by (simp add: is_urgent_def urgent_symptoms_table_def run_strings)
  have no: "\<not> is_urgent lower_latin1 (py ''Fatigue'')"
    by (simp add: is_urgent_def urgent_symptoms_table_def run_strings)
  have found: "\<exists>symptom \<in> set [py ''Fatigue'', py ''PARALYSIE du bras''].
      \<exists>phrase \<in> fst ` set urgent_symptoms_table. sublist phrase (lower_latin1 symptom)"
    using yes by (simp add: is_urgent_def)
  have listed: "filter (is_urgent lower_latin1) [py ''Fatigue'', py ''PARALYSIE du bras'']
      = [py ''PARALYSIE du bras'']"
    using yes no by simp
  note run = urgent_symptom_precedence [OF table found,
      of "[(py ''Infarctus du myocarde'', float_0_9)]", unfolded listed list.map]
  let ?result = "generate_urgency_alert lower_latin1 demo_manager
        [py ''Fatigue'', py ''PARALYSIE du bras''] [(py ''Infarctus du myocarde'', float_0_9)]"
  from run have directive: "?result = symptom_alert [(py ''PARALYSIE du bras'', URGENT)]"
    and other: "?result \<noteq> disease_alert (py ''Infarctus du myocarde'')"
    by blast+
  from run have "\<forall>symptom \<in> set [py ''Fatigue'', py ''PARALYSIE du bras''].
      is_urgent lower_latin1 symptom \<longrightarrow>
      sublist (bullet @ py '' '' @ symptom @ py '' (URGENT)'') ?result"
    by blast
  then have "is_urgent lower_latin1 (py ''PARALYSIE du bras'') \<longrightarrow>
      sublist (bullet @ py '' '' @ py ''PARALYSIE du bras'' @ py '' (URGENT)'') ?result"
    by (rule bspec) simp
  from this yes
  have "sublist (bullet @ py '' '' @ py ''PARALYSIE du bras'' @ py '' (URGENT)'') ?result"
    by (rule mp)
  then have line: "sublist (bullet @ py '' PARALYSIE du bras (URGENT)'') ?result"
    by (simp add: py_def)
  have "\<not> sublist (py ''Fatigue'') (symptom_alert [(py ''PARALYSIE du bras'', URGENT)])"
    by (simp add: symptom_alert_def run_strings)
  with directive have absent: "\<not> sublist (py ''Fatigue'') ?result"
    by simp
  from table found directive line absent other show ?thesis by blast
qed

lemma disease_alert_names_disease:
  "disease_alert disease \<noteq> []
   \<and> prefix (py ''**Alerte** : La condition '') (disease_alert disease)
   \<and> sublist disease (disease_alert disease)"
proof -
  have "disease_alert disease \<noteq> []"
    by (simp add: disease_alert_def py_def)
  moreover have "prefix (py ''**Alerte** : La condition '') (disease_alert disease)"
    by (simp add: disease_alert_def)
  moreover have "sublist disease (disease_alert disease)"
    unfolding disease_alert_def by (metis append.assoc sublist_appendI)
  ultimately show ?thesis by blast
qed

lemma threshold_literals:
  "\<not> valof float_0_3 > valof float_0_3" "valof float_0_31 > valof float_0_3"
  by (simp_all add: float_0_3_def float_0_31_def)

text \<open>
  C3. When no symptom contains an urgent phrase, the result is decided by the first
  prediction, in list order, whose score is strictly above the float 0.3 and whose
  severity is "urgente" or "critique": the result is the advisory for that one disease,
  and it is empty when there is none. The advisory is a text that is not empty, starts
  with "**Alerte**" and contains the name of the disease, so it cannot be taken for the
  empty result. A lone prediction at exactly 0.3 gives the empty result; at 0.31 it gives
  the advisory as soon as its severity is "urgente" or "critique".
\<close>

theorem disease_level_threshold:
  assumes "\<forall>symptom \<in> set symptoms. \<forall>phrase \<in> fst ` set (urgent_symptoms self).
             \<not> sublist phrase (lower symptom)"
  shows "generate_urgency_alert lower self symptoms predictions =
           (case find (qualifies lower self) predictions of
              None \<Rightarrow> []
            | Some (disease, score) \<Rightarrow> disease_alert disease)
         \<and> (\<forall>disease. disease_alert disease \<noteq> []
                \<and> prefix (py ''**Alerte** : La condition '') (disease_alert disease)
                \<and> sublist disease (disease_alert disease))
         \<and> generate_urgency_alert lower self symptoms [(d, float_0_3)] = []
         \<and> (get_disease_severity lower self d \<in> {urgente, critique} \<longrightarrow>
              generate_urgency_alert lower self symptoms [(d, float_0_31)] = disease_alert d
              \<and> generate_urgency_alert lower self symptoms [(d, float_0_31)] \<noteq> [])"
proof -
  have "generate_urgency_alert lower self symptoms ps = prediction_loop lower self ps" for ps
    by (simp add: generate_urgency_alert_def check_symptom_severity_none [OF assms])
  then show ?thesis
    using disease_alert_names_disease
    by (simp add: prediction_loop_find qualifies_def threshold_literals)
qed

theorem disease_level_threshold_witness:
  "check_symptom_severity lower_latin1 demo_manager [py ''fatigue''] = []
   \<and> generate_urgency_alert lower_latin1 demo_manager [py ''fatigue'']
        [(py ''Grippe'', float_0_8), (py ''AVC'', float_0_3), (py ''Infarctus du myocarde'', float_0_31),
         (py ''AVC'', float_0_9)]
      = disease_alert (py ''Infarctus du myocarde'')
   \<and> generate_urgency_alert lower_latin1 demo_manager [py ''fatigue''] [(py ''AVC'', float_0_3)] = []
   \<and> generate_urgency_alert lower_latin1 demo_manager [py ''fatigue''] [(py ''AVC'', float_0_31)]
      = disease_alert (py ''AVC'')
   \<and> disease_alert (py ''AVC'') \<noteq> []
   \<and> sublist (py ''AVC'') (disease_alert (py ''AVC''))"
proof -
  have calm: "\<forall>symptom \<in> set [py ''fatigue'']. \<forall>phrase \<in> fst ` set (urgent_symptoms demo_manager).
      \<not> sublist phrase (lower_latin1 symptom)"
    by (simp add: demo_manager_fields urgent_symptoms_table_def run_strings)
  have grippe: "get_disease_severity lower_latin1 demo_manager (py ''Grippe'') = moderee"
    by (simp add: get_disease_severity_def demo_manager_fields demo_members_def
        get_severity_def run_strings)
  have infarctus:
    "get_disease_severity lower_latin1 demo_manager (py ''Infarctus du myocarde'') = critique"
    by (simp add: get_disease_severity_def demo_manager_fields demo_members_def
        get_severity_def run_strings)
  have avc: "get_disease_severity lower_latin1 demo_manager (py ''AVC'') = urgente"
    by (simp add: get_disease_severity_def demo_manager_fields demo_members_def
        get_severity_def run_strings)
  have tiers: "moderee \<notin> {urgente, critique}"
    by (simp add: run_strings)
  have first: "find (qualifies lower_latin1 demo_manager)
      [(py ''Grippe'', float_0_8), (py ''AVC'', float_0_3), (py ''Infarctus du myocarde'', float_0_31),
       (py ''AVC'', float_0_9)] = Some (py ''Infarctus du myocarde'', float_0_31)"
    using tiers
    by (simp add: qualifies_def grippe infarctus avc float_0_3_def float_0_31_def
        float_0_8_def float_0_9_def)
  note run = disease_level_threshold [OF calm,
      of "[(py ''Grippe'', float_0_8), (py ''AVC'', float_0_3), (py ''Infarctus du myocarde'', float_0_31),
           (py ''AVC'', float_0_9)]" "py ''AVC''", unfolded first avc]
  from run have "generate_urgency_alert lower_latin1 demo_manager [py ''fatigue'']
        [(py ''Grippe'', float_0_8), (py ''AVC'', float_0_3), (py ''Infarctus du myocarde'', float_0_31),
         (py ''AVC'', float_0_9)]
      = disease_alert (py ''Infarctus du myocarde'')"
    and "generate_urgency_alert lower_latin1 demo_manager [py ''fatigue''] [(py ''AVC'', float_0_3)] = []"
    and "generate_urgency_alert lower_latin1 demo_manager [py ''fatigue''] [(py ''AVC'', float_0_31)]
      = disease_alert (py ''AVC'')"
    and "disease_alert (py ''AVC'') \<noteq> []"
    and "sublist (py ''AVC'') (disease_alert (py ''AVC''))"
    by simp_all
  with check_symptom_severity_none [OF calm] show ?thesis by blast
qed

text \<open>
  C7. The lookup compares by containment, not by key equality: when the lowercased query
  occurs inside the lowercased name stored at some position of the knowledge base, and
  inside no name stored before it, the result is the severity of that entry (its
  "severity" field, or "inconnue" when the field is missing). The query need not equal
  the stored name. Without the condition on the names stored before, a query that is a
  proper substring of a stored name can get the tier of another disease.
\<close>

theorem severity_lookup_by_containment:
  assumes "i < length (disease_data self)"
    and "disease_data self ! i = (disease_name, data)"
    and "sublist (lower disease) (lower disease_name)"
    and "\<forall>j<i. \<not> sublist (lower disease) (lower (fst (disease_data self ! j)))"
  shows "get_disease_severity lower self disease = get_severity data"
  unfolding get_disease_severity_def
  by (rule severity_loop_index [OF assms])

theorem severity_lookup_by_containment_witness:
  "1 < length (disease_data demo_manager)
   \<and> fst (disease_data demo_manager ! 1) = py ''Infarctus du myocarde''
   \<and> py ''farctus'' \<noteq> py ''Infarctus du myocarde''
   \<and> sublist (py ''farctus'') (py ''Infarctus du myocarde'')
   \<and> sublist (lower_latin1 (py ''farctus'')) (lower_latin1 (py ''Infarctus du myocarde''))
   \<and> \<not> sublist (lower_latin1 (py ''farctus''))
          (lower_latin1 (fst (disease_data demo_manager ! 0)))
   \<and> map_of (disease_data demo_manager) (py ''farctus'') = None
   \<and> get_disease_severity lower_latin1 demo_manager (py ''farctus'') = critique"
proof -
  let ?data = "demo_entry [py ''douleur thoracique'', py ''essoufflement''] critique"
  have len: "1 < length (disease_data demo_manager)"
    by (simp add: demo_manager_fields demo_members_def)
  have at: "disease_data demo_manager ! 1 = (py ''Infarctus du myocarde'', ?data)"
    by (simp add: demo_manager_fields demo_members_def)
  have inside: "sublist (lower_latin1 (py ''farctus''))
      (lower_latin1 (py ''Infarctus du myocarde''))"
    by (simp add: run_strings)
  have before: "\<forall>j<1. \<not> sublist (lower_latin1 (py ''farctus''))
      (lower_latin1 (fst (disease_data demo_manager ! j)))"
    by (simp add: demo_manager_fields demo_members_def run_strings)
  have proper: "py ''farctus'' \<noteq> py ''Infarctus du myocarde''"
    and literal: "sublist (py ''farctus'') (py ''Infarctus du myocarde'')"
    and nokey: "map_of (disease_data demo_manager) (py ''farctus'') = None"
    by (simp_all add: demo_manager_fields demo_members_def run_strings)
  have "get_disease_severity lower_latin1 demo_manager (py ''farctus'') = critique"
    using severity_lookup_by_containment [OF len at inside before]
    by (simp add: get_severity_def demo_entry_def)
  with len at inside before proper literal nokey show ?thesis by simp
qed

text \<open>
  The query "C" is a proper substring of the stored name "AVC", whose tier is "urgente";
  lowercased it also occurs in "Infarctus du myocarde", stored before, and the lookup
  answers "critique".
\<close>

theorem severity_lookup_proper_substring_counterexample:
  "sublist (py ''C'') (py ''AVC'')
   \<and> py ''C'' \<noteq> py ''AVC''
   \<and> (py ''AVC'', demo_entry [py ''paralysie'', py ''trouble de la parole''] urgente)
        \<in> set (disease_data demo_manager)
   \<and> get_severity (demo_entry [py ''paralysie'', py ''trouble de la parole''] urgente) = urgente
   \<and> get_disease_severity lower_latin1 demo_manager (py ''C'') = critique
   \<and> critique \<noteq> urgente"
  by (simp add: demo_manager_fields demo_members_def get_disease_severity_def
      get_severity_def run_strings)

text \<open>
  C9. With a knowledge base that is not empty, the empty query is contained in the first
  stored name, so the result is the severity of the first entry in iteration order and
  the loop never reaches its "inconnue" fall-through. For any query, the entry that
  decides is the first one, in iteration order, whose lowercased name contains the
  lowercased query. (\<open>"".lower()\<close> is \<open>""\<close>; this is the only fact about \<open>lower\<close> used.)
\<close>

theorem severity_lookup_empty_query:
  assumes "lower [] = []"
    and "disease_data self = (first_name, first_data) # rest"
  shows "get_disease_severity lower self [] = get_severity first_data
         \<and> get_disease_severity lower self disease =
             (case find (name_contains lower disease) (disease_data self) of
                None \<Rightarrow> inconnue
              | Some (disease_name, data) \<Rightarrow> get_severity data)"
  by (simp add: get_disease_severity_def severity_loop_find assms name_contains_def)

theorem severity_lookup_empty_query_witness:
  "lower_latin1 [] = []
   \<and> disease_data demo_manager = hd demo_members # tl demo_members
   \<and> get_disease_severity lower_latin1 demo_manager [] = moderee
   \<and> moderee \<noteq> inconnue
   \<and> get_disease_severity lower_latin1 demo_manager (py ''c'') = critique"
proof -
  let ?grippe = "demo_entry [py ''fi'' @ e_grave @ py ''vre'', py ''toux'', py ''courbatures'']
        moderee"
  have low: "lower_latin1 [] = []"
    by (simp add: lower_latin1_def)
  have kb: "disease_data demo_manager = (py ''Grippe'', ?grippe) # tl demo_members"
    by (simp add: demo_manager_fields demo_members_def)
  have shape: "disease_data demo_manager = hd demo_members # tl demo_members"
    by (simp add: demo_manager_fields demo_members_def)
  have first: "find (name_contains lower_latin1 (py ''c'')) (disease_data demo_manager)
      = Some (demo_members ! 1)"
    by (simp add: demo_manager_fields demo_members_def name_contains_def run_strings)
  have differ: "moderee \<noteq> inconnue"
    by (simp add: run_strings)
  note run = severity_lookup_empty_query [where lower = lower_latin1 and disease = "py ''c''",
      OF low kb, unfolded first]
  from run have "get_disease_severity lower_latin1 demo_manager [] = moderee"
    and "get_disease_severity lower_latin1 demo_manager (py ''c'') = critique"
    by (simp_all add: get_severity_def demo_members_def demo_entry_def)
  with low shape differ show ?thesis by blast
qed

section \<open>Properties of the disease matcher\<close>

subsection \<open>The float literals\<close>

text \<open>
  Each constant is the correctly rounded quotient that the decimal literal denotes, and
  the weight of three equal terms is what normalising \<open>[1, 1, 1]\<close> gives.
\<close>

lemma float_literals:
  "float_0_1 = fdiv (Float 1 0) (Float 10 0)"
  "float_0_3 = fdiv (Float 3 0) (Float 10 0)"
  "float_0_31 = fdiv (Float 31 0) (Float 100 0)"
  "float_0_6 = fdiv (Float 6 0) (Float 10 0)"
  "float_0_8 = fdiv (Float 8 0) (Float 10 0)"
  "float_0_9 = fdiv (Float 9 0) (Float 10 0)"
  "float_1 = fdiv (Float 1 0) (Float 1 0)"
  "float_third_root = fdiv (Float 1 0) (fsqrt (Float 3 0))"
  by code_simp+

text \<open>The double 0.1 lies above one tenth, the double 0.3 below three tenths.\<close>

lemma float_literal_values:
  "1 / 10 < valof float_0_1" "valof float_0_3 < 3 / 10" "valof float_1 = 1"
  by (simp_all add: float_0_1_def float_0_3_def float_1_def)

subsection \<open>Filtering, sorting and truncating\<close>

lemma predict_diseases_result:
  "fst (predict_diseases self user_symptoms) = []
   \<or> (\<exists>user_vector similarities.
         vectorizer self (join (py '' '') user_symptoms) = Inr user_vector
         \<and> cosine_similarity user_vector (symptom_vectors self) = Inr similarities
         \<and> fst (predict_diseases self user_symptoms) = ranked (diseases self) similarities)"
proof (cases "user_symptoms = []")
  case True
  then show ?thesis by (simp add: predict_diseases_def)
next
  case False
  show ?thesis
  proof (cases "vectorizer self (join (py '' '') user_symptoms)")
    case (Inl e)
    with False show ?thesis by (simp add: predict_diseases_def Let_def)
  next
    case (Inr user_vector)
    show ?thesis
    proof (cases "cosine_similarity user_vector (symptom_vectors self)")
      case (Inl e)
      with False Inr show ?thesis by (simp add: predict_diseases_def Let_def)
    next
      case similarities: (Inr similarities)
      with False Inr
      have "fst (predict_diseases self user_symptoms) = ranked (diseases self) similarities"
        unfolding predict_diseases_def ranked_def Let_def
        by (simp only: if_False sum.case fst_conv)
      with Inr similarities show ?thesis by blast
    qed
  qed
qed



lemma set_sort_reverse: "set (sort_reverse key xs) = set xs"
  by (simp add: sort_reverse_def)

lemma distinct_sort_reverse: "distinct (sort_reverse key xs) = distinct xs"
  by (simp add: sort_reverse_def)



lemma ranked_set:
  "set (ranked ds sims)
     \<subseteq> {(d, s). (d, s) \<in> set (zip ds sims) \<and> valof s > valof float_0_1}"
proof -
  have "set (ranked ds sims)
      \<subseteq> set (sort_reverse (\<lambda>x. valof (snd x))
               (filter (\<lambda>(disease, score). valof score > valof float_0_1) (zip ds sims)))"
    unfolding ranked_def by (rule set_take_subset)
  then show ?thesis by (auto simp: set_sort_reverse)
qed

lemma ranked_member:
  assumes "(d, s) \<in> set (ranked ds sims)"
  shows "(d, s) \<in> set (zip ds sims)" and "d \<in> set ds" and "valof float_0_1 < valof s"
proof -
  from assms ranked_set
  have "(d, s) \<in> {(d, s). (d, s) \<in> set (zip ds sims) \<and> valof s > valof float_0_1}"
    by blast
  then show z: "(d, s) \<in> set (zip ds sims)" and "valof float_0_1 < valof s" by simp_all
  from z show "d \<in> set ds" by (rule set_zip_leftD)
qed


lemma distinct_map_fst_zip: "distinct ds \<Longrightarrow> distinct (map fst (zip ds sims))"
  by (simp add: map_fst_zip_take)

lemma ranked_distinct:
  assumes "distinct ds"
  shows "distinct (map fst (ranked ds sims))"
proof -
  let ?kept = "filter (\<lambda>(disease, score). valof score > valof float_0_1) (zip ds sims)"
  have "distinct (map fst ?kept)"
    using distinct_map_fst_zip [OF assms, of sims] by (rule distinct_map_filter)
  then have "distinct ?kept" and "inj_on fst (set ?kept)"
    by (simp_all add: distinct_map)
  then have "distinct (map fst (sort_reverse (\<lambda>x. valof (snd x)) ?kept))"
    by (simp add: distinct_map set_sort_reverse distinct_sort_reverse)
  then have "distinct (take 5 (map fst (sort_reverse (\<lambda>x. valof (snd x)) ?kept)))"
    by (rule distinct_take)
  then show ?thesis by (simp add: ranked_def take_map)
qed

lemma distinct_dict_of: "distinct (map fst (dict_of members))"
proof -
  have "distinct (map fst d) \<Longrightarrow>
      distinct (map fst (foldl (\<lambda>d (k, v). AList.update k v d) d members))"
    for d :: "('a \<times> 'b) list"
    by (induction members arbitrary: d) (auto simp: distinct_update)
  then show ?thesis by (simp add: dict_of_def)
qed

text \<open>
  The ghost trace has no influence on the result, and a call changes nothing else in the
  object.
\<close>

lemma predict_diseases_calls_only:
  "fst (predict_diseases (self\<lparr>calls := c\<rparr>) user_symptoms) = fst (predict_diseases self user_symptoms)"
  by (simp add: predict_diseases_def Let_def split: sum.splits)

lemma predict_diseases_object:
  "snd (predict_diseases self user_symptoms)
     = self\<lparr>calls := calls (snd (predict_diseases self user_symptoms))\<rparr>"
  by (simp add: predict_diseases_def Let_def split: sum.splits)

subsection \<open>The example predictor\<close>

lemma demo_dict: "dict_of demo_members = demo_members"
  by (simp add: dict_of_def demo_members_def py_chars)

lemma demo_init: "DiseasePredictor_init demo_fit_transform demo_fs demo_path = Inr demo_predictor"
proof -
  have "demo_members \<noteq> []" by (simp add: demo_members_def)
  then show ?thesis
    by (simp add: DiseasePredictor_init_def demo_fs_def demo_dict demo_fit_transform_def
        demo_predictor_def demo_descriptions_def Let_def)
qed

lemma demo_vectors:
  "map demo_vector demo_descriptions =
     [[float_1, float_0, float_0], [float_0, float_1, float_0], [float_0, float_0, float_1],
      [float_1, float_0, float_0], [float_0_6, float_0_8, float_0], [float_1, float_0, float_0],
      [float_1, float_0, float_0], [float_0_6, float_0_8, float_0],
      [float_third_root, float_third_root, float_third_root]]"
  by (simp add: demo_descriptions_def demo_members_def demo_vector_def run_strings)

text \<open>
  The similarities of the projection of "toux", and of the projection of the three
  symptoms of the last disease, with the nine rows. The last row has similarity
  \<open>1 + 2 ^ - 52\<close>, that is 1.0000000000000002, with itself.
\<close>

lemma demo_similarities:
  "cosine_similarity [float_1, float_0, float_0] (map demo_vector demo_descriptions)
     = Inr [float_1, float_0, float_0, float_1, float_0_6, float_1, float_1, float_0_6,
            float_third_root]"
  unfolding demo_vectors by code_simp


lemma demo_projection:
  "demo_vector (py ''toux'') = [float_1, float_0, float_0]"
  "demo_vector (py ''paralysie'' @ py '' '' @ py ''douleur abdominale'' @ py '' '' @ py ''toux'')
     = [float_third_root, float_third_root, float_third_root]"
  by (simp_all add: demo_vector_def run_strings)

lemmas float_values = float_0_def float_1_def float_0_1_def float_0_6_def float_0_8_def
  float_third_root_def

lemma demo_run:
  "fst (predict_diseases demo_predictor [py ''toux''])
     = [(py ''Grippe'', float_1), (py ''Rhume'', float_1), (py ''Bronchite'', float_1),
        (py ''Asthme'', float_1), (py ''Angine'', float_0_6)]"
proof -
  have "fst (predict_diseases demo_predictor [py ''toux''])
      = ranked (map fst demo_members)
          [float_1, float_0, float_0, float_1, float_0_6, float_1, float_1, float_0_6,
           float_third_root]"
    unfolding predict_diseases_def ranked_def Let_def
    by (simp add: demo_predictor_def demo_transform_def demo_projection demo_similarities)
  also have "\<dots> = [(py ''Grippe'', float_1), (py ''Rhume'', float_1), (py ''Bronchite'', float_1),
        (py ''Asthme'', float_1), (py ''Angine'', float_0_6)]"
    by (simp add: ranked_def sort_reverse_def demo_members_def float_values)
  finally show ?thesis .
qed


subsection \<open>Claims about \<open>predict_diseases\<close>\<close>




text \<open>
  C10. For a predictor built by the constructor, every disease name in the result of
  \<open>predict_diseases\<close> is a key of the loaded knowledge base, and no name occurs twice.
\<close>

theorem predict_diseases_names:
  assumes "DiseasePredictor_init fit_transform fs data_path = Inr self"
  shows "fst ` set (fst (predict_diseases self user_symptoms)) \<subseteq> fst ` set (dp_disease_data self)
         \<and> distinct (map fst (fst (predict_diseases self user_symptoms)))"
proof -
  from assms obtain content where "json_load content = Inr (dp_disease_data self)"
    and names: "diseases self = map fst (dp_disease_data self)"
    by (auto simp: DiseasePredictor_init_def Let_def split: option.splits sum.splits prod.splits)
  then obtain members where "dp_disease_data self = dict_of members"
    by (cases content) (simp, metis json_load.simps(2) sum.inject(2))
  with names have "distinct (diseases self)"
    by (simp add: distinct_dict_of)
  consider "fst (predict_diseases self user_symptoms) = []"
    | similarities where
        "fst (predict_diseases self user_symptoms) = ranked (diseases self) similarities"
    using predict_diseases_result by blast
  then show ?thesis
  proof cases
    case 1
    then show ?thesis by simp
  next
    case 2
    have "fst ` set (ranked (diseases self) similarities) \<subseteq> set (diseases self)"
      by (auto dest: ranked_member(2))
    with \<open>distinct (diseases self)\<close> show ?thesis
      by (simp add: 2 ranked_distinct names)
  qed
qed

theorem predict_diseases_names_witness:
  "DiseasePredictor_init demo_fit_transform demo_fs demo_path = Inr demo_predictor
   \<and> fst ` set (fst (predict_diseases demo_predictor [py ''toux'']))
        \<subseteq> fst ` set (dp_disease_data demo_predictor)
   \<and> distinct (map fst (fst (predict_diseases demo_predictor [py ''toux''])))
   \<and> map fst (fst (predict_diseases demo_predictor [py ''toux'']))
      = [py ''Grippe'', py ''Rhume'', py ''Bronchite'', py ''Asthme'', py ''Angine'']"
  using predict_diseases_names [OF demo_init, of "[py ''toux'']"] demo_init
  by (simp add: demo_run)

text \<open>
  C5. With the empty symptom list the result is empty and the object is returned as it
  was: no library call is recorded, whereas any call with symptoms records at least one.
  When the projection of the symptom text raises, or the similarity computation raises,
  the result is the empty list; \<open>predict_diseases\<close> has no exceptional result at all.
\<close>

theorem predict_diseases_empty_and_failures:
  "predict_diseases self [] = ([], self)
   \<and> (user_symptoms \<noteq> [] \<longrightarrow>
        calls (snd (predict_diseases self user_symptoms)) \<noteq> calls self)
   \<and> (\<forall>e. vectorizer self (join (py '' '') user_symptoms) = Inl e \<longrightarrow>
          fst (predict_diseases self user_symptoms) = [])
   \<and> (\<forall>user_vector e.
          vectorizer self (join (py '' '') user_symptoms) = Inr user_vector \<longrightarrow>
          cosine_similarity user_vector (symptom_vectors self) = Inl e \<longrightarrow>
          fst (predict_diseases self user_symptoms) = [])"
  by (simp add: predict_diseases_def Let_def split: sum.splits)

theorem predict_diseases_empty_and_failures_witness:
  "predict_diseases demo_predictor [] = ([], demo_predictor)
   \<and> calls (snd (predict_diseases demo_predictor [py ''toux''])) \<noteq> calls demo_predictor
   \<and> vectorizer (demo_predictor\<lparr>vectorizer := \<lambda>text. Inl OtherException\<rparr>)
        (join (py '' '') [py ''toux'']) = Inl OtherException
   \<and> fst (predict_diseases (demo_predictor\<lparr>vectorizer := \<lambda>text. Inl OtherException\<rparr>)
          [py ''toux'']) = []
   \<and> cosine_similarity [float_1, float_0, float_0]
        (symptom_vectors (demo_predictor\<lparr>symptom_vectors := [[float_1, float_0]]\<rparr>))
      = Inl ValueError
   \<and> fst (predict_diseases (demo_predictor\<lparr>symptom_vectors := [[float_1, float_0]]\<rparr>)
          [py ''toux'']) = []"
proof -
  let ?broken = "demo_predictor\<lparr>vectorizer := \<lambda>text. Inl OtherException\<rparr>"
  let ?ragged = "demo_predictor\<lparr>symptom_vectors := [[float_1, float_0]]\<rparr>"
  have raises: "vectorizer ?broken (join (py '' '') [py ''toux'']) = Inl OtherException"
    by simp
  have projected: "vectorizer ?ragged (join (py '' '') [py ''toux''])
      = Inr [float_1, float_0, float_0]"
    by (simp add: demo_predictor_def demo_transform_def demo_projection)
  have mismatch: "cosine_similarity [float_1, float_0, float_0] (symptom_vectors ?ragged)
      = Inl ValueError"
    by (simp add: cosine_similarity_def)
  have "predict_diseases demo_predictor [] = ([], demo_predictor)"
    and "calls (snd (predict_diseases demo_predictor [py ''toux''])) \<noteq> calls demo_predictor"
    using predict_diseases_empty_and_failures [of demo_predictor "[py ''toux'']"] by simp_all
  moreover have "fst (predict_diseases ?broken [py ''toux'']) = []"
    using predict_diseases_empty_and_failures [of ?broken "[py ''toux'']"] raises by blast
  moreover have "fst (predict_diseases ?ragged [py ''toux'']) = []"
    using predict_diseases_empty_and_failures [of ?ragged "[py ''toux'']"] projected mismatch
    by blast
  ultimately show ?thesis using raises mismatch by blast
qed

section \<open>Construction without a knowledge-base file\<close>



section \<open>The symptom extractor on inputs that are not strings\<close>

lemma extract_symptoms_falsy:
  "\<not> truthy text \<Longrightarrow> extract_symptoms lower rt self text = Inr []"
  by (simp add: extract_symptoms_def)

lemma extract_symptoms_not_str:
  "truthy text \<Longrightarrow> \<not> isinstance_str text \<Longrightarrow>
   preprocess_text lower rt self text = Inr []
   \<and> extract_symptoms lower rt self text = Inl AttributeError"
  by (cases "text") (simp_all add: extract_symptoms_def preprocess_text_def)

text \<open>
  The model on the sentence of the specification's scenario, with the toy pipeline: the
  labels found include "mal de gorge" and "fievre" (the latter with its grave accent).
\<close>

lemma demo_init_nlp: "NLPProcessor_init (Inr demo_pipeline) = Inr demo_processor"
  by (simp add: NLPProcessor_init_def demo_processor_def)

lemma demo_tokens:
  "preprocess_text lower_latin1 demo_runtime demo_processor (PyStr demo_sentence)
     = Inr demo_words"
  by (simp add: preprocess_text_def demo_runtime_def demo_processor_def demo_pipeline_def
      demo_sentence_def demo_words_def run_strings)


lemma demo_lower: "lower_latin1 demo_sentence = demo_sentence"
  by (simp add: demo_sentence_def run_strings)

lemma demo_direct:
  "direct_search demo_sentence (map fst medical_patterns) [] = [py ''fi'' @ e_grave @ py ''vre'']"
  by (simp add: demo_sentence_def medical_patterns_def run_strings)


lemma demo_token_pass:
  "token_search demo_words medical_patterns [py ''fi'' @ e_grave @ py ''vre'']
     = [py ''fi'' @ e_grave @ py ''vre'', py ''mal de gorge'']"
  by (simp add: demo_words_def medical_patterns_def run_strings)


lemma demo_term_pass:
  "term_search demo_processor demo_words [py ''fi'' @ e_grave @ py ''vre'', py ''mal de gorge'']
     = [py ''fi'' @ e_grave @ py ''vre'', py ''mal de gorge'', py ''mal'', py ''gorge'']"
  by (simp add: demo_words_def demo_processor_def medical_terms_literal_def
      get_symptom_name_from_token_def symptom_map_def Let_def run_strings)

lemma demo_regex_pass:
  "regex_search demo_runtime t regex_patterns detected = detected"
  by (simp add: regex_patterns_def demo_runtime_def)


lemma demo_listing: "list_of_set demo_runtime = sorted_list_of_set"
  by (simp add: demo_runtime_def)

lemma demo_extraction:
  "map_sum id set (extract_symptoms lower_latin1 demo_runtime demo_processor (PyStr demo_sentence))
     = Inr (set [py ''fi'' @ e_grave @ py ''vre'', py ''mal de gorge'', py ''mal'', py ''gorge''])"
proof -
  have nonempty: "demo_sentence \<noteq> []"
    by (simp add: demo_sentence_def py_chars)
  have "extract_symptoms lower_latin1 demo_runtime demo_processor (PyStr demo_sentence)
      = Inr (sorted_list_of_set
               (set [py ''fi'' @ e_grave @ py ''vre'', py ''mal de gorge'', py ''mal'', py ''gorge'']))"
    unfolding extract_symptoms_def Let_def
    by (simp only: truthy.simps nonempty not_False_eq_True not_True_eq_False if_False
        demo_tokens sum.case lower_method.simps demo_lower demo_direct demo_token_pass
        demo_term_pass demo_regex_pass demo_listing)
  moreover have "set (sorted_list_of_set (set found)) = set found" for found :: "pystr list"
    by simp
  ultimately show ?thesis by (simp only: map_sum.simps id_apply)
qed

text \<open>
  C4. The claim asks that \<open>extract_symptoms\<close> never raise and answer the empty list on
  input that is not a string. \<open>preprocess_text\<close> does so, through its \<open>isinstance\<close> test;
  \<open>extract_symptoms\<close> tests \<open>not text\<close> only, and on the integer 42 or on a non-empty
  list it goes on to \<open>text.lower()\<close>, which raises \<open>AttributeError\<close>.
\<close>

theorem extract_symptoms_non_string_raises:
  "preprocess_text lower rt self (PyInt 42) = Inr []
   \<and> extract_symptoms lower rt self (PyInt 42) = Inl AttributeError
   \<and> extract_symptoms lower rt self (PyList [PyStr (py ''toux'')]) = Inl AttributeError"
  by (simp add: extract_symptoms_def preprocess_text_def)

theorem extract_symptoms_non_string_raises_witness:
  "extract_symptoms lower_latin1 demo_runtime demo_processor PyNone = Inr []
   \<and> extract_symptoms lower_latin1 demo_runtime demo_processor (PyInt 42) = Inl AttributeError
   \<and> preprocess_text lower_latin1 demo_runtime demo_processor (PyInt 42) = Inr []"
  using extract_symptoms_non_string_raises [of lower_latin1 demo_runtime demo_processor]
  by (simp add: extract_symptoms_falsy)

end
